theory Spec2Isabelle
  imports Complex_Main
begin

section \<open>JavaScript numbers\<close>

text \<open>
  Both programs (\<^verbatim>\<open>src/breakout.ts\<close>, the paddle game, and \<^verbatim>\<open>unnamed/part_000\<close>, the
  snake game) compute with JavaScript numbers, that is IEEE 754 binary64 values. A finite
  binary64 value is a rational number, and every arithmetic operator returns the exact
  result rounded to the nearest representable value, ties to the even significand.
  The rounding is written out here, so that a statement such as "exactly 120.0" is about
  the rounded arithmetic of the program and not about the real numbers.

  Not modelled: NaN, the infinities and the sign of zero. The numbers that reach the code
  (normalised landmark coordinates, canvas sizes, clock readings, small game constants)
  are finite and far from the overflow threshold, and the only divisions are by a
  non-empty history's length and by the constants 2 and 20.
\<close>

type_synonym number = rat

text \<open>The number of binary digits of a natural number.\<close>

fun bits :: "nat \<Rightarrow> nat" where
  "bits n = (if n = 0 then 0 else Suc (bits (n div 2)))"

declare bits.simps [simp del]

text \<open>For \<open>0 < a\<close>: the exponent \<open>e\<close> with \<open>2 ^ e \<le> a < 2 ^ (e + 1)\<close>.\<close>

definition ilog2 :: "rat \<Rightarrow> int" where
  "ilog2 a = (if 1 \<le> a then int (bits (nat \<lfloor>a\<rfloor>)) - 1
              else - int (bits (nat (\<lceil>1 / a\<rceil> - 1))))"

definition pow2 :: "int \<Rightarrow> rat" where
  "pow2 e = (if 0 \<le> e then 2 ^ nat e else 1 / 2 ^ nat (- e))"

definition roundTiesToEven :: "rat \<Rightarrow> int" where
  "roundTiesToEven q =
     (let f = \<lfloor>q\<rfloor>; d = q - of_int f
      in if d < 1 / 2 then f
         else if 1 / 2 < d then f + 1
         else if even f then f else f + 1)"

text \<open>
  Rounding to binary64: 53 significant bits, the unit in the last place is
  \<open>2 ^ (e - 52)\<close>, and below \<open>2 ^ (- 1022)\<close> the spacing stays that of the subnormals.
\<close>

definition b64 :: "rat \<Rightarrow> number" where
  "b64 a = (if a = 0 then 0
            else let e = max (ilog2 \<bar>a\<bar>) (- 1022); u = pow2 (e - 52)
                 in of_int (roundTiesToEven (a / u)) * u)"

text \<open>The operators \<^verbatim>\<open>+ - * /\<close> of the source, and a decimal literal such as \<^verbatim>\<open>0.2\<close>.\<close>

definition fadd :: "number \<Rightarrow> number \<Rightarrow> number" where
  "fadd a b = b64 (a + b)"

definition fsub :: "number \<Rightarrow> number \<Rightarrow> number" where
  "fsub a b = b64 (a - b)"

definition fmul :: "number \<Rightarrow> number \<Rightarrow> number" where
  "fmul a b = b64 (a * b)"

definition fdiv :: "number \<Rightarrow> number \<Rightarrow> number" where
  "fdiv a b = b64 (a / b)"

definition lit :: "rat \<Rightarrow> number" where
  "lit q = b64 q"

section \<open>The data both programs share\<close>

text \<open>
  \<^verbatim>\<open>interface HeadPose { timestamp: number; x: number; y: number }\<close>. The timestamp is a
  reading of \<^verbatim>\<open>Date.now()\<close>, an integer number of milliseconds, on which the one
  subtraction \<^verbatim>\<open>now - SMOOTHING_DURATION\<close> is exact; it is an \<open>int\<close> here. The fields
  \<^verbatim>\<open>x\<close> and \<^verbatim>\<open>y\<close> are \<open>pose_x\<close> and \<open>pose_y\<close>.
\<close>

record HeadPose =
  timestamp :: int
  pose_x :: number
  pose_y :: number

text \<open>A landmark of the detector: only its \<^verbatim>\<open>x\<close> and \<^verbatim>\<open>y\<close> are read.\<close>

type_synonym NormalizedLandmark = "number \<times> number"

text \<open>\<^verbatim>\<open>gameCanvas.width\<close> and \<^verbatim>\<open>gameCanvas.height\<close>: properties of the page, never assigned.\<close>

record canvas =
  width :: nat
  height :: nat

text \<open>
  The module-level variables that have the same declaration in both files:
  \<^verbatim>\<open>lastVideoTime\<close>, \<^verbatim>\<open>gameRunning\<close>, \<^verbatim>\<open>neutralChinPosition\<close> (\<open>None\<close> is \<^verbatim>\<open>null\<close>),
  \<^verbatim>\<open>poseHistory\<close> and \<^verbatim>\<open>score\<close>. Each game extends this record with its own variables.
\<close>

record game =
  lastVideoTime :: number
  gameRunning :: bool
  neutralChinPosition :: "(number \<times> number) option"
  poseHistory :: "HeadPose list"
  score :: int

text \<open>Reading a property of \<^verbatim>\<open>null\<close> or \<^verbatim>\<open>undefined\<close> throws a \<^verbatim>\<open>TypeError\<close>.\<close>

datatype js_error = TypeError

section \<open>The lines of processLandmarks that both files share\<close>

text \<open>
  \<^verbatim>\<open>const chin = landmarks[152]; if (!chin) return;\<close> An index past the end of the array
  reads \<^verbatim>\<open>undefined\<close>.
\<close>

definition chinOf :: "NormalizedLandmark list \<Rightarrow> NormalizedLandmark option" where
  "chinOf landmarks = (if 152 < length landmarks then Some (landmarks ! 152) else None)"

text \<open>
  \<^verbatim>\<open>if (gameRunning && !neutralChinPosition) { neutralChinPosition = { x: chin.x, y: chin.y }; }\<close>
\<close>

definition calibrate :: "NormalizedLandmark \<Rightarrow> 'a game_scheme \<Rightarrow> 'a game_scheme" where
  "calibrate chin s =
     (if gameRunning s \<and> neutralChinPosition s = None
      then s\<lparr>neutralChinPosition := Some (fst chin, snd chin)\<rparr>
      else s)"

text \<open>
  \<^verbatim>\<open>while (poseHistory.length > 0 && poseHistory[0].timestamp < cutoff) { poseHistory.shift(); }\<close>
\<close>

fun shiftOld :: "int \<Rightarrow> HeadPose list \<Rightarrow> HeadPose list" where
  "shiftOld cutoff [] = []"
| "shiftOld cutoff (p # ps) = (if timestamp p < cutoff then shiftOld cutoff ps else p # ps)"

text \<open>
  \<^verbatim>\<open>poseHistory.push({ timestamp: now, x: chin.x, y: chin.y });\<close>
  \<^verbatim>\<open>const cutoff = now - SMOOTHING_DURATION;\<close> and the loop above. The constant
  \<^verbatim>\<open>SMOOTHING_DURATION\<close> is 200 in the paddle game and 500 in the snake game.
\<close>

definition newPose :: "int \<Rightarrow> NormalizedLandmark \<Rightarrow> HeadPose" where
  "newPose now chin = \<lparr>timestamp = now, pose_x = fst chin, pose_y = snd chin\<rparr>"

definition pushAndPrune ::
  "int \<Rightarrow> int \<Rightarrow> NormalizedLandmark \<Rightarrow> 'a game_scheme \<Rightarrow> 'a game_scheme" where
  "pushAndPrune smoothing_duration now chin s =
     (let cutoff = now - smoothing_duration
      in s\<lparr>poseHistory := shiftOld cutoff (poseHistory s @ [newPose now chin])\<rparr>)"

text \<open>
  \<^verbatim>\<open>poseHistory.reduce((sum, p) => sum + p.x, 0) / poseHistory.length\<close>, and the same
  with \<^verbatim>\<open>p.y\<close>. Both are evaluated on a non-empty history only.
\<close>

definition avgX :: "HeadPose list \<Rightarrow> number" where
  "avgX h = fdiv (foldl (\<lambda>sum p. fadd sum (pose_x p)) 0 h) (of_nat (length h))"

definition avgY :: "HeadPose list \<Rightarrow> number" where
  "avgY h = fdiv (foldl (\<lambda>sum p. fadd sum (pose_y p)) 0 h) (of_nat (length h))"

section \<open>The snake game (unnamed/part_000)\<close>

text \<open>\<^verbatim>\<open>type Direction = 'up' | 'down' | 'left' | 'right'\<close>\<close>

datatype Direction = Up | Down | Left | Right

text \<open>
  The variables of this file only: \<^verbatim>\<open>snake\<close> (head first), \<^verbatim>\<open>food\<close> (declared as
  \<^verbatim>\<open>{} as any\<close>, here \<open>None\<close>, until \<^verbatim>\<open>placeFood\<close> assigns it), the committed heading
  \<^verbatim>\<open>direction\<close> and the pending heading \<^verbatim>\<open>newDirection\<close>. The timer handle
  \<^verbatim>\<open>gameLoopId\<close> and \<^verbatim>\<open>startTime\<close> are not state of the model: the interval is set
  where \<^verbatim>\<open>gameRunning\<close> becomes true and cleared where it becomes false.
\<close>

record snake_game = game +
  snake :: "(number \<times> number) list"
  food :: "(number \<times> number) option"
  direction :: Direction
  newDirection :: Direction

definition gridSize :: number where
  "gridSize = 20"

definition MAX_SCORE :: int where
  "MAX_SCORE = 5"

definition SMOOTHING_DURATION_snake :: int where
  "SMOOTHING_DURATION_snake = 500"

text \<open>The values of the declarations at the top of the file.\<close>

definition initial_snake :: snake_game where
  "initial_snake =
     \<lparr>lastVideoTime = - 1, gameRunning = False, neutralChinPosition = None,
      poseHistory = [], score = 0,
      snake = [(15, 15)], food = None, direction = Right, newDirection = Right\<rparr>"

text \<open>
  Lines 123 to 145 of \<^verbatim>\<open>processLandmarks\<close>: the early return, the two averages, the
  deviations from the neutral position and the chain of four guarded assignments to
  \<^verbatim>\<open>newDirection\<close>. \<^verbatim>\<open>neutralChinPosition.x\<close> would throw on \<^verbatim>\<open>null\<close>.
\<close>

definition resolveDirection :: "snake_game \<Rightarrow> js_error + snake_game" where
  "resolveDirection s =
     (if poseHistory s = [] \<or> neutralChinPosition s = None then Inr s
      else case neutralChinPosition s of
        None \<Rightarrow> Inl TypeError
      | Some neutral \<Rightarrow>
          let hDiff = fsub (avgX (poseHistory s)) (fst neutral);
              vDiff = fsub (avgY (poseHistory s)) (snd neutral);
              horizontalThreshold = lit (3 / 100);
              verticalThreshold = lit (1 / 100)
          in Inr (if hDiff > horizontalThreshold \<and> direction s \<noteq> Right
                  then s\<lparr>newDirection := Left\<rparr>
                  else if hDiff < - horizontalThreshold \<and> direction s \<noteq> Left
                  then s\<lparr>newDirection := Right\<rparr>
                  else if vDiff < - verticalThreshold \<and> direction s \<noteq> Down
                  then s\<lparr>newDirection := Up\<rparr>
                  else if vDiff > verticalThreshold \<and> direction s \<noteq> Up
                  then s\<lparr>newDirection := Down\<rparr>
                  else s))"

text \<open>
  \<^verbatim>\<open>processLandmarks(landmarks)\<close>, with the reading \<open>now\<close> of \<^verbatim>\<open>Date.now()\<close> as an
  argument.
\<close>

definition processLandmarks_snake ::
  "int \<Rightarrow> NormalizedLandmark list \<Rightarrow> snake_game \<Rightarrow> js_error + snake_game" where
  "processLandmarks_snake now landmarks s =
     (case chinOf landmarks of
        None \<Rightarrow> Inr s
      | Some chin \<Rightarrow>
          resolveDirection (pushAndPrune SMOOTHING_DURATION_snake now chin (calibrate chin s)))"

text \<open>
  \<^verbatim>\<open>predictWebcam()\<close>: \<open>videoTime\<close> is \<^verbatim>\<open>video.currentTime\<close>, \<open>results\<close> is what the
  detector returns for this frame (\<open>None\<close> when it returns \<^verbatim>\<open>undefined\<close> or no
  \<^verbatim>\<open>faceLandmarks\<close>), and \<open>now\<close> the clock reading inside \<^verbatim>\<open>processLandmarks\<close>. The
  function asks for the next animation frame in every case: the calls of the model are
  the frames.
\<close>

definition predictWebcam_snake ::
  "number \<Rightarrow> NormalizedLandmark list list option \<Rightarrow> int \<Rightarrow> snake_game
     \<Rightarrow> js_error + snake_game" where
  "predictWebcam_snake videoTime results now s =
     (if videoTime \<noteq> lastVideoTime s then
        let s1 = s\<lparr>lastVideoTime := videoTime\<rparr>
        in case results of
             None \<Rightarrow> Inr s1
           | Some faceLandmarks \<Rightarrow>
               (case faceLandmarks of
                  [] \<Rightarrow> Inr s1
                | face # _ \<Rightarrow> processLandmarks_snake now face s1)
      else Inr s)"

text \<open>
  The three nested loops of \<^verbatim>\<open>placeFood\<close>: some segment of the snake lies on one of the
  nine cells of the food.
\<close>

definition onSnake :: "(number \<times> number) list \<Rightarrow> number \<times> number \<Rightarrow> bool" where
  "onSnake sn f =
     list_ex (\<lambda>segment.
        list_ex (\<lambda>i.
          list_ex (\<lambda>j. fst segment = fadd (fst f) i \<and> snd segment = fadd (snd f) j)
            [0, 1, 2])
          [0, 1, 2])
       sn"

text \<open>
  The assignment to \<^verbatim>\<open>food\<close> in \<^verbatim>\<open>placeFood\<close>, from the two values \<open>r\<close> that
  \<^verbatim>\<open>Math.random()\<close> returns:
  \<^verbatim>\<open>{ x: Math.floor(Math.random() * (gridWidth - 2)), y: Math.floor(Math.random() * (gridHeight - 2)) }\<close>
\<close>

definition cellOf :: "canvas \<Rightarrow> number \<times> number \<Rightarrow> number \<times> number" where
  "cellOf c r =
     (let gridWidth = fdiv (of_nat (width c)) gridSize;
          gridHeight = fdiv (of_nat (height c)) gridSize
      in (of_int \<lfloor>fmul (fst r) (fsub gridWidth 2)\<rfloor>,
          of_int \<lfloor>fmul (snd r) (fsub gridHeight 2)\<rfloor>))"

text \<open>
  \<^verbatim>\<open>placeFood()\<close> draws a cell and calls itself again when the cell lies on the snake.
  The draws are an argument, a pair for each attempt, in the order the calls return
  them; \<open>None\<close> says that the function has not returned within the draws supplied.
\<close>

fun placeFood ::
  "canvas \<Rightarrow> (number \<times> number) list \<Rightarrow> (number \<times> number) list \<Rightarrow> (number \<times> number) option"
  where
  "placeFood c sn [] = None"
| "placeFood c sn (r # draws) =
     (if onSnake sn (cellOf c r) then placeFood c sn draws else Some (cellOf c r))"

text \<open>\<^verbatim>\<open>resetGame()\<close>: the assignment to \<^verbatim>\<open>neutralChinPosition\<close> follows \<^verbatim>\<open>placeFood()\<close>.\<close>

definition resetGame_snake ::
  "canvas \<Rightarrow> (number \<times> number) list \<Rightarrow> snake_game \<Rightarrow> snake_game option" where
  "resetGame_snake c draws s =
     (let s1 = s\<lparr>snake := [(15, 15)], direction := Right, newDirection := Right, score := 0\<rparr>
      in case placeFood c (snake s1) draws of
           None \<Rightarrow> None
         | Some f \<Rightarrow> Some (s1\<lparr>food := Some f, neutralChinPosition := None\<rparr>))"

text \<open>\<^verbatim>\<open>endGame()\<close>: besides drawing, it clears the flag (and the interval).\<close>

definition endGame_snake :: "snake_game \<Rightarrow> snake_game" where
  "endGame_snake s = s\<lparr>gameRunning := False\<rparr>"

text \<open>\<^verbatim>\<open>startGame()\<close>, the click handler of the start button.\<close>

definition startGame_snake ::
  "canvas \<Rightarrow> (number \<times> number) list \<Rightarrow> snake_game \<Rightarrow> snake_game option" where
  "startGame_snake c draws s =
     (if gameRunning s then Some s
      else resetGame_snake c draws (s\<lparr>gameRunning := True\<rparr>))"

text \<open>\<^verbatim>\<open>checkSelfCollision(head)\<close>: the loop starts at index 1.\<close>

definition checkSelfCollision :: "number \<times> number \<Rightarrow> (number \<times> number) list \<Rightarrow> bool" where
  "checkSelfCollision head sn =
     list_ex (\<lambda>segment. fst head = fst segment \<and> snd head = snd segment) (drop 1 sn)"

text \<open>
  \<^verbatim>\<open>update()\<close>, one tick of the game. Its first statement commits the pending heading.
  \<^verbatim>\<open>snake[0].x\<close> throws on an empty snake. Where the result is \<open>None\<close>, \<^verbatim>\<open>placeFood\<close>
  has not returned.
\<close>

definition moveHead :: "canvas \<Rightarrow> Direction \<Rightarrow> number \<times> number \<Rightarrow> number \<times> number" where
  "moveHead c d segment =
     (let hx = fst segment; hy = snd segment;
          hx = (if d = Right then fadd hx 1 else hx);
          hx = (if d = Left then fsub hx 1 else hx);
          hy = (if d = Up then fsub hy 1 else hy);
          hy = (if d = Down then fadd hy 1 else hy);
          gridWidth = fdiv (of_nat (width c)) gridSize;
          gridHeight = fdiv (of_nat (height c)) gridSize;
          hx = (if hx < 0 then fsub gridWidth 1 else if hx \<ge> gridWidth then 0 else hx);
          hy = (if hy < 0 then fsub gridHeight 1 else if hy \<ge> gridHeight then 0 else hy)
      in (hx, hy))"

definition update ::
  "canvas \<Rightarrow> (number \<times> number) list \<Rightarrow> snake_game \<Rightarrow> (js_error + snake_game) option" where
  "update c draws s0 =
     (let s = s0\<lparr>direction := newDirection s0\<rparr>
      in case snake s of
           [] \<Rightarrow> Some (Inl TypeError)
         | segment # _ \<Rightarrow>
             let head = moveHead c (direction s) segment
             in if checkSelfCollision head (snake s) then Some (Inr (endGame_snake s))
                else
                  let s1 = s\<lparr>snake := head # snake s\<rparr>
                  in if (case food s1 of
                           None \<Rightarrow> False
                         | Some f \<Rightarrow> fst head \<ge> fst f \<and> fst head < fadd (fst f) 3 \<and>
                                     snd head \<ge> snd f \<and> snd head < fadd (snd f) 3)
                     then
                       let s2 = s1\<lparr>score := score s1 + 1\<rparr>
                       in if score s2 \<ge> MAX_SCORE then Some (Inr (endGame_snake s2))
                          else (case placeFood c (snake s2) draws of
                                  None \<Rightarrow> None
                                | Some f \<Rightarrow> Some (Inr (s2\<lparr>food := Some f\<rparr>)))
                     else Some (Inr (s1\<lparr>snake := butlast (snake s1)\<rparr>)))"

text \<open>
  What happens to the page, in order: a frame of the prediction loop, a tick of the
  interval that \<^verbatim>\<open>startGame\<close> sets to call \<^verbatim>\<open>gameLoop\<close> (which calls \<^verbatim>\<open>update\<close>, then draws),
  a click on the start button. \<^verbatim>\<open>endGame\<close> clears the interval, so a tick reaches
  \<^verbatim>\<open>update\<close> only while the game runs.
\<close>

datatype event =
    Frame number "NormalizedLandmark list list option" int
  | Tick "(number \<times> number) list"
  | Click "(number \<times> number) list"

fun step_snake :: "canvas \<Rightarrow> event \<Rightarrow> snake_game \<Rightarrow> (js_error + snake_game) option" where
  "step_snake c (Frame videoTime results now) s = Some (predictWebcam_snake videoTime results now s)"
| "step_snake c (Tick draws) s = (if gameRunning s then update c draws s else Some (Inr s))"
| "step_snake c (Click draws) s = map_option Inr (startGame_snake c draws s)"

fun run_snake :: "canvas \<Rightarrow> event list \<Rightarrow> snake_game \<Rightarrow> (js_error + snake_game) option" where
  "run_snake c [] s = Some (Inr s)"
| "run_snake c (e # es) s =
     (case step_snake c e s of
        None \<Rightarrow> None
      | Some (Inl err) \<Rightarrow> Some (Inl err)
      | Some (Inr s') \<Rightarrow> run_snake c es s')"

section \<open>The paddle game (src/breakout.ts)\<close>

text \<open>\<^verbatim>\<open>type Brick = { x: number; y: number; status: number }\<close>\<close>

record Brick =
  brick_x :: number
  brick_y :: number
  status :: int

text \<open>
  The variables of this file only. \<^verbatim>\<open>gameLoopId\<close> is a handle of the animation frame
  and not state of the model.
\<close>

record breakout_game = game +
  paddleX :: number
  ballX :: number
  ballY :: number
  ballDX :: number
  ballDY :: number
  lives :: int
  bricks :: "Brick list list"

definition SMOOTHING_DURATION_breakout :: int where
  "SMOOTHING_DURATION_breakout = 200"

definition paddleWidth :: number where
  "paddleWidth = 120"

definition brickRowCount :: nat where
  "brickRowCount = 5"

definition brickColumnCount :: nat where
  "brickColumnCount = 7"

text \<open>\<^verbatim>\<open>let userDirection: 'left' | 'right' | 'none'\<close>\<close>

datatype userDirection = UserLeft | UserRight | UserNone

text \<open>
  Lines 145 to 151: the classification of the horizontal deviation, with
  \<^verbatim>\<open>horizontalThreshold = 0.02\<close>.
\<close>

definition classify :: "number \<Rightarrow> userDirection" where
  "classify hDiff =
     (let horizontalThreshold = lit (2 / 100)
      in if hDiff > horizontalThreshold then UserLeft
         else if hDiff < - horizontalThreshold then UserRight
         else UserNone)"

text \<open>\<^verbatim>\<open>(1 - avgX) * gameCanvas.width - (paddleWidth / 2)\<close>, on lines 161 and 165.\<close>

definition directControl :: "canvas \<Rightarrow> number \<Rightarrow> number" where
  "directControl c a = fsub (fmul (fsub 1 a) (of_nat (width c))) (fdiv paddleWidth 2)"

text \<open>
  Lines 138 to 166: the value of \<^verbatim>\<open>targetPaddleX\<close>, from the average \<open>a\<close> of the
  history. \<^verbatim>\<open>neutralChinPosition.x\<close> would throw on \<^verbatim>\<open>null\<close>.
\<close>

definition targetPaddleX :: "canvas \<Rightarrow> number \<Rightarrow> breakout_game \<Rightarrow> js_error + number" where
  "targetPaddleX c a s =
     (if gameRunning s \<and> ballDY s > 0 \<and> neutralChinPosition s \<noteq> None then
        case neutralChinPosition s of
          None \<Rightarrow> Inl TypeError
        | Some neutral \<Rightarrow>
            let hDiff = fsub a (fst neutral);
                userDirection = classify hDiff;
                ballIsMovingRight = (ballDX s > 0);
                requiredDirection = (if ballIsMovingRight then UserRight else UserLeft)
            in Inr (if userDirection = requiredDirection
                    then fsub (ballX s) (fdiv paddleWidth 2)
                    else directControl c a)
      else Inr (directControl c a))"

text \<open>Line 169: \<^verbatim>\<open>paddleX += (targetPaddleX - paddleX) * 0.2\<close>.\<close>

definition ease :: "number \<Rightarrow> number \<Rightarrow> number" where
  "ease position target = fadd position (fmul (fsub target position) (lit (2 / 10)))"

text \<open>Line 172: \<^verbatim>\<open>Math.max(0, Math.min(gameCanvas.width - paddleWidth, paddleX))\<close>.\<close>

definition clampPaddle :: "canvas \<Rightarrow> number \<Rightarrow> number" where
  "clampPaddle c p = max 0 (min (fsub (of_nat (width c)) paddleWidth) p)"

text \<open>
  \<^verbatim>\<open>processLandmarks(landmarks)\<close>, with the reading \<open>now\<close> of \<^verbatim>\<open>Date.now()\<close> as an
  argument.
\<close>

definition processLandmarks_breakout ::
  "canvas \<Rightarrow> int \<Rightarrow> NormalizedLandmark list \<Rightarrow> breakout_game \<Rightarrow> js_error + breakout_game"
  where
  "processLandmarks_breakout c now landmarks s =
     (case chinOf landmarks of
        None \<Rightarrow> Inr s
      | Some chin \<Rightarrow>
          let s2 = pushAndPrune SMOOTHING_DURATION_breakout now chin (calibrate chin s)
          in if poseHistory s2 = [] then Inr s2
             else (case targetPaddleX c (avgX (poseHistory s2)) s2 of
                     Inl err \<Rightarrow> Inl err
                   | Inr target \<Rightarrow>
                       Inr (s2\<lparr>paddleX := clampPaddle c (ease (paddleX s2) target)\<rparr>)))"

text \<open>\<^verbatim>\<open>predictWebcam()\<close>, as in the snake game.\<close>

definition predictWebcam_breakout ::
  "canvas \<Rightarrow> number \<Rightarrow> NormalizedLandmark list list option \<Rightarrow> int \<Rightarrow> breakout_game
     \<Rightarrow> js_error + breakout_game" where
  "predictWebcam_breakout c videoTime results now s =
     (if videoTime \<noteq> lastVideoTime s then
        let s1 = s\<lparr>lastVideoTime := videoTime\<rparr>
        in case results of
             None \<Rightarrow> Inr s1
           | Some faceLandmarks \<Rightarrow>
               (case faceLandmarks of
                  [] \<Rightarrow> Inr s1
                | face # _ \<Rightarrow> processLandmarks_breakout c now face s1)
      else Inr s)"

text \<open>\<^verbatim>\<open>initializeBricks()\<close>: seven columns of five bricks.\<close>

definition initializeBricks :: "Brick list list" where
  "initializeBricks =
     replicate brickColumnCount
       (replicate brickRowCount \<lparr>brick_x = 0, brick_y = 0, status = 1\<rparr>)"

text \<open>
  \<^verbatim>\<open>resetGame()\<close>. \<^verbatim>\<open>startGame()\<close> calls it on both of its paths (a first start and a
  restart while the game runs). The drawing and the physics of the ball that follow in
  \<^verbatim>\<open>gameLoop\<close> are not part of the model.
\<close>

definition resetGame_breakout :: "canvas \<Rightarrow> breakout_game \<Rightarrow> breakout_game" where
  "resetGame_breakout c s =
     s\<lparr>score := 0, lives := 3,
       ballX := fdiv (of_nat (width c)) 2,
       ballY := fsub (of_nat (height c)) 30,
       ballDX := 4, ballDY := - 4,
       paddleX := fdiv (fsub (of_nat (width c)) paddleWidth) 2,
       neutralChinPosition := None,
       bricks := initializeBricks\<rparr>"

text \<open>\<^verbatim>\<open>endGame(message)\<close>: besides drawing, it clears the flag (and the animation frame).\<close>

definition endGame_breakout :: "breakout_game \<Rightarrow> breakout_game" where
  "endGame_breakout s = s\<lparr>gameRunning := False\<rparr>"

text \<open>
  The values of the declarations at the top of the file, before the initial call of
  \<^verbatim>\<open>initializeBricks\<close> and \<^verbatim>\<open>draw\<close>.
\<close>

definition initial_breakout :: "canvas \<Rightarrow> breakout_game" where
  "initial_breakout c =
     \<lparr>lastVideoTime = - 1, gameRunning = False, neutralChinPosition = None,
      poseHistory = [], score = 0,
      paddleX = fdiv (fsub (of_nat (width c)) paddleWidth) 2,
      ballX = fdiv (of_nat (width c)) 2,
      ballY = fsub (of_nat (height c)) 30,
      ballDX = 4, ballDY = - 4, lives = 3, bricks = []\<rparr>"

section \<open>Notions of the specification\<close>

text \<open>The reverse of a heading.\<close>

fun opposite :: "Direction \<Rightarrow> Direction" where
  "opposite Up = Down"
| "opposite Down = Up"
| "opposite Left = Right"
| "opposite Right = Left"

text \<open>
  A history in ascending order of its timestamps, none of them later than the clock
  reading \<open>now\<close>: what the history is as long as the clock never steps back.
\<close>

definition ascending :: "int \<Rightarrow> HeadPose list \<Rightarrow> bool" where
  "ascending now h \<longleftrightarrow> sorted (map timestamp h) \<and> list_all (\<lambda>p. timestamp p \<le> now) h"

text \<open>The clock readings of the frames of a run, in order.\<close>

fun readings :: "event list \<Rightarrow> int list" where
  "readings [] = []"
| "readings (Frame videoTime results now # es) = now # readings es"
| "readings (Tick draws # es) = readings es"
| "readings (Click draws # es) = readings es"

section \<open>Inputs of the examples\<close>

text \<open>
  A detector result with 153 landmarks, all at the same point, so that landmark 152 (the
  chin) exists, and a page with a canvas of 520 by 400.
\<close>

definition faceAt :: "number \<Rightarrow> number \<Rightarrow> NormalizedLandmark list" where
  "faceAt a b = replicate 153 (a, b)"

definition page :: canvas where
  "page = \<lparr>width = 520, height = 400\<rparr>"

text \<open>
  The snake game after a click on the start button (the first draw of \<^verbatim>\<open>placeFood\<close>
  gives the cell \<open>(0, 0)\<close>) and a first frame, read at 1000, with the chin at
  \<open>(1/2, 1/2)\<close>: the game runs and the neutral position is that of the chin.
\<close>

definition calibrated_snake :: snake_game where
  "calibrated_snake =
     initial_snake\<lparr>lastVideoTime := 1, gameRunning := True,
       neutralChinPosition := Some (1 / 2, 1 / 2),
       poseHistory := [newPose 1000 (1 / 2, 1 / 2)],
       food := Some (0, 0)\<rparr>"

text \<open>
  The paddle game while it runs, with the neutral position at \<open>(1/2, 1/2)\<close>, the
  paddle at 100 and the ball at \<open>(300, 200)\<close> on its way down and to the right.
\<close>

definition running_breakout :: breakout_game where
  "running_breakout =
     (initial_breakout page)\<lparr>gameRunning := True,
       neutralChinPosition := Some (1 / 2, 1 / 2),
       paddleX := 100, ballX := 300, ballY := 200, ballDX := 4, ballDY := 4\<rparr>"

section \<open>Lemmas about the shared lines\<close>

subsection \<open>The rounding at work\<close>

text \<open>
  The values that a JavaScript engine prints for \<^verbatim>\<open>0.1\<close>, \<^verbatim>\<open>0.1 + 0.2\<close>, \<^verbatim>\<open>0.3\<close>,
  \<^verbatim>\<open>100 * 0.2\<close>, \<^verbatim>\<open>3 * 0.1\<close> and \<^verbatim>\<open>1 / 3\<close>, as fractions.
\<close>

lemma binary64_examples:
  "lit (1 / 10) = 3602879701896397 / 2 ^ 55"
  "fadd (lit (1 / 10)) (lit (2 / 10)) = 5404319552844596 / 2 ^ 54"
  "lit (3 / 10) = 5404319552844595 / 2 ^ 54"
  "fmul 100 (lit (2 / 10)) = 20"
  "fmul 3 (lit (1 / 10)) = 5404319552844596 / 2 ^ 54"
  "fdiv 1 3 = 6004799503160661 / 2 ^ 54"
  by code_simp+

subsection \<open>The history\<close>

lemma shiftOld_sorted_ge:
  "sorted (map timestamp h) \<Longrightarrow> p \<in> set (shiftOld cutoff h) \<Longrightarrow> cutoff \<le> timestamp p"
  by (induction h) (auto split: if_splits)

lemma shiftOld_subset: "set (shiftOld cutoff h) \<subseteq> set h"
  by (induction h) auto

lemma shiftOld_sorted:
  "sorted (map timestamp h) \<Longrightarrow> sorted (map timestamp (shiftOld cutoff h))"
  by (induction h) auto

lemma shiftOld_keeps_last:
  "\<not> timestamp q < cutoff \<Longrightarrow>
     shiftOld cutoff (h @ [q]) \<noteq> [] \<and> last (shiftOld cutoff (h @ [q])) = q"
  by (induction h) auto

lemma shiftOld_all_old:
  "\<forall>p\<in>set h. timestamp p < cutoff \<Longrightarrow> \<not> timestamp q < cutoff \<Longrightarrow>
     shiftOld cutoff (h @ [q]) = [q]"
  by (induction h) auto

lemma chinOf_faceAt: "chinOf (faceAt a b) = Some (a, b)"
  by (simp add: chinOf_def faceAt_def)

lemma timestamp_newPose: "timestamp (newPose now chin) = now"
  by (simp add: newPose_def)

lemma calibrate_fields:
  "poseHistory (calibrate chin s) = poseHistory s"
  "gameRunning (calibrate chin s) = gameRunning s"
  "lastVideoTime (calibrate chin s) = lastVideoTime s"
  "score (calibrate chin s) = score s"
  "neutralChinPosition (calibrate chin s) =
     (if gameRunning s \<and> neutralChinPosition s = None then Some chin
      else neutralChinPosition s)"
  by (simp_all add: calibrate_def)

lemma pushAndPrune_fields:
  "poseHistory (pushAndPrune w now chin s) =
     shiftOld (now - w) (poseHistory s @ [newPose now chin])"
  "gameRunning (pushAndPrune w now chin s) = gameRunning s"
  "lastVideoTime (pushAndPrune w now chin s) = lastVideoTime s"
  "score (pushAndPrune w now chin s) = score s"
  "neutralChinPosition (pushAndPrune w now chin s) = neutralChinPosition s"
  by (simp_all add: pushAndPrune_def Let_def)

lemma snake_fields:
  "direction (calibrate chin s) = direction s"
  "newDirection (calibrate chin s) = newDirection s"
  "snake (calibrate chin s) = snake s"
  "food (calibrate chin s) = food s"
  "direction (pushAndPrune w now chin s) = direction s"
  "newDirection (pushAndPrune w now chin s) = newDirection s"
  "snake (pushAndPrune w now chin s) = snake s"
  "food (pushAndPrune w now chin s) = food s"
  by (simp_all add: calibrate_def pushAndPrune_def Let_def)

lemma breakout_fields:
  "paddleX (calibrate chin b) = paddleX b"
  "ballX (calibrate chin b) = ballX b"
  "ballY (calibrate chin b) = ballY b"
  "ballDX (calibrate chin b) = ballDX b"
  "ballDY (calibrate chin b) = ballDY b"
  "lives (calibrate chin b) = lives b"
  "bricks (calibrate chin b) = bricks b"
  "paddleX (pushAndPrune w now chin b) = paddleX b"
  "ballX (pushAndPrune w now chin b) = ballX b"
  "ballY (pushAndPrune w now chin b) = ballY b"
  "ballDX (pushAndPrune w now chin b) = ballDX b"
  "ballDY (pushAndPrune w now chin b) = ballDY b"
  "lives (pushAndPrune w now chin b) = lives b"
  "bricks (pushAndPrune w now chin b) = bricks b"
  by (simp_all add: calibrate_def pushAndPrune_def Let_def)

subsection \<open>The shape of the results\<close>

lemma resolveDirection_shape:
  "\<exists>d. resolveDirection s = Inr (s\<lparr>newDirection := d\<rparr>) \<and>
       (d = newDirection s \<or> d \<noteq> opposite (direction s))"
proof (cases "poseHistory s = [] \<or> neutralChinPosition s = None")
  case True
  then have "resolveDirection s = Inr (s\<lparr>newDirection := newDirection s\<rparr>)"
    by (simp add: resolveDirection_def)
  then show ?thesis by blast
next
  case False
  then obtain n where n: "neutralChinPosition s = Some n" by auto
  define hDiff where "hDiff = fsub (avgX (poseHistory s)) (fst n)"
  define vDiff where "vDiff = fsub (avgY (poseHistory s)) (snd n)"
  define d where "d =
    (if lit (3 / 100) < hDiff \<and> direction s \<noteq> Right then Left
     else if hDiff < - lit (3 / 100) \<and> direction s \<noteq> Left then Right
     else if vDiff < - lit (1 / 100) \<and> direction s \<noteq> Down then Up
     else if lit (1 / 100) < vDiff \<and> direction s \<noteq> Up then Down
     else newDirection s)"
  have "resolveDirection s = Inr (s\<lparr>newDirection := d\<rparr>)"
    using False n by (simp add: resolveDirection_def Let_def d_def hDiff_def vDiff_def)
  moreover have "d = newDirection s \<or> d \<noteq> opposite (direction s)"
    by (cases "direction s") (simp_all add: d_def)
  ultimately show ?thesis by blast
qed

lemma processLandmarks_snake_shape:
  assumes "chinOf landmarks = Some chin"
  shows "\<exists>d. processLandmarks_snake now landmarks s =
           Inr ((pushAndPrune SMOOTHING_DURATION_snake now chin (calibrate chin s))
                  \<lparr>newDirection := d\<rparr>) \<and>
           (d = newDirection s \<or> d \<noteq> opposite (direction s))"
  using resolveDirection_shape
    [of "pushAndPrune SMOOTHING_DURATION_snake now chin (calibrate chin s)"] assms
  by (simp add: processLandmarks_snake_def snake_fields)

lemma targetPaddleX_returns: "\<exists>t. targetPaddleX c a b = Inr t"
  by (cases "neutralChinPosition b") (simp_all add: targetPaddleX_def Let_def)

lemma processLandmarks_breakout_shape:
  assumes "chinOf landmarks = Some chin"
  shows "\<exists>t. processLandmarks_breakout c now landmarks b =
           Inr ((pushAndPrune SMOOTHING_DURATION_breakout now chin (calibrate chin b))
                  \<lparr>paddleX := t\<rparr>)"
proof -
  define b2 where "b2 = pushAndPrune SMOOTHING_DURATION_breakout now chin (calibrate chin b)"
  obtain t where t: "targetPaddleX c (avgX (poseHistory b2)) b2 = Inr t"
    using targetPaddleX_returns by blast
  show ?thesis
  proof (cases "poseHistory b2 = []")
    case True
    then have "processLandmarks_breakout c now landmarks b = Inr (b2\<lparr>paddleX := paddleX b2\<rparr>)"
      using assms by (simp add: processLandmarks_breakout_def b2_def Let_def)
    then show ?thesis unfolding b2_def by blast
  next
    case False
    then have "processLandmarks_breakout c now landmarks b =
        Inr (b2\<lparr>paddleX := clampPaddle c (ease (paddleX b2) t)\<rparr>)"
      using assms t by (simp add: processLandmarks_breakout_def b2_def Let_def)
    then show ?thesis unfolding b2_def by blast
  qed
qed

lemma targetPaddleX_paddleX: "targetPaddleX c a (b\<lparr>paddleX := p\<rparr>) = targetPaddleX c a b"
  by (cases "neutralChinPosition b") (simp_all add: targetPaddleX_def Let_def)

lemma ascending_step:
  assumes "ascending now h"
  shows "ascending now (shiftOld (now - w) (h @ [newPose now chin]))"
proof -
  have "sorted (map timestamp (h @ [newPose now chin]))"
    using assms by (auto simp: ascending_def sorted_append list_all_iff timestamp_newPose)
  then have "sorted (map timestamp (shiftOld (now - w) (h @ [newPose now chin])))"
    by (rule shiftOld_sorted)
  moreover have "\<forall>p\<in>set (shiftOld (now - w) (h @ [newPose now chin])). timestamp p \<le> now"
    using assms shiftOld_subset [of "now - w" "h @ [newPose now chin]"]
    by (auto simp: ascending_def list_all_iff timestamp_newPose)
  ultimately show ?thesis by (simp add: ascending_def list_all_iff)
qed

lemma ascending_window:
  assumes "ascending now h" and "p \<in> set (shiftOld (now - w) (h @ [newPose now chin]))"
  shows "now - w \<le> timestamp p"
proof -
  have "sorted (map timestamp (h @ [newPose now chin]))"
    using assms(1) by (auto simp: ascending_def sorted_append list_all_iff timestamp_newPose)
  then show ?thesis using assms(2) by (rule shiftOld_sorted_ge)
qed

section \<open>Lemmas about the handlers\<close>

subsection \<open>What each handler of the snake game changes\<close>

lemma predictWebcam_snake_cases:
  "predictWebcam_snake videoTime results now s = Inr s
   \<or> predictWebcam_snake videoTime results now s = Inr (s\<lparr>lastVideoTime := videoTime\<rparr>)
   \<or> (\<exists>face rest chin d. results = Some (face # rest) \<and> chinOf face = Some chin \<and>
        videoTime \<noteq> lastVideoTime s \<and>
        predictWebcam_snake videoTime results now s =
          Inr ((pushAndPrune SMOOTHING_DURATION_snake now chin
                  (calibrate chin (s\<lparr>lastVideoTime := videoTime\<rparr>)))\<lparr>newDirection := d\<rparr>) \<and>
        (d = newDirection s \<or> d \<noteq> opposite (direction s)))"
proof (cases "videoTime \<noteq> lastVideoTime s")
  case False
  then show ?thesis by (simp add: predictWebcam_snake_def)
next
  case True
  show ?thesis
  proof (cases results)
    case None
    with True show ?thesis by (simp add: predictWebcam_snake_def)
  next
    case (Some faceLandmarks)
    show ?thesis
    proof (cases faceLandmarks)
      case Nil
      with True Some show ?thesis by (simp add: predictWebcam_snake_def)
    next
      case (Cons face rest)
      show ?thesis
      proof (cases "chinOf face")
        case None
        with True Some Cons show ?thesis
          by (simp add: predictWebcam_snake_def processLandmarks_snake_def)
      next
        case (Some chin)
        obtain d where d: "processLandmarks_snake now face (s\<lparr>lastVideoTime := videoTime\<rparr>) =
            Inr ((pushAndPrune SMOOTHING_DURATION_snake now chin
                  (calibrate chin (s\<lparr>lastVideoTime := videoTime\<rparr>)))\<lparr>newDirection := d\<rparr>)"
          and ok: "d = newDirection (s\<lparr>lastVideoTime := videoTime\<rparr>) \<or>
                   d \<noteq> opposite (direction (s\<lparr>lastVideoTime := videoTime\<rparr>))"
          using processLandmarks_snake_shape [OF Some] by blast
        have "predictWebcam_snake videoTime results now s =
            Inr ((pushAndPrune SMOOTHING_DURATION_snake now chin
                  (calibrate chin (s\<lparr>lastVideoTime := videoTime\<rparr>)))\<lparr>newDirection := d\<rparr>)"
          using True \<open>results = Some faceLandmarks\<close> Cons d
          by (simp add: predictWebcam_snake_def)
        moreover have "d = newDirection s \<or> d \<noteq> opposite (direction s)"
          using ok by simp
        ultimately have third: "\<exists>face rest chin d. results = Some (face # rest) \<and>
            chinOf face = Some chin \<and> videoTime \<noteq> lastVideoTime s \<and>
            predictWebcam_snake videoTime results now s =
              Inr ((pushAndPrune SMOOTHING_DURATION_snake now chin
                  (calibrate chin (s\<lparr>lastVideoTime := videoTime\<rparr>)))\<lparr>newDirection := d\<rparr>) \<and>
            (d = newDirection s \<or> d \<noteq> opposite (direction s))"
          using True \<open>results = Some faceLandmarks\<close> Cons Some
          by (intro exI [of _ face] exI [of _ rest] exI [of _ chin] exI [of _ d]) simp
        show ?thesis
          by (rule disjI2, rule disjI2) (rule third)
      qed
    qed
  qed
qed

lemma predictWebcam_snake_returns: "\<exists>s'. predictWebcam_snake videoTime results now s = Inr s'"
  using predictWebcam_snake_cases [of videoTime results now s] by blast

lemma predictWebcam_snake_heading:
  assumes "predictWebcam_snake videoTime results now s = Inr s'"
  shows "direction s' = direction s \<and> gameRunning s' = gameRunning s \<and>
         (newDirection s' = newDirection s \<or> newDirection s' \<noteq> opposite (direction s))"
  using predictWebcam_snake_cases [of videoTime results now s] assms
  by (auto simp: snake_fields pushAndPrune_fields calibrate_fields)

lemma update_fields:
  assumes "update c draws s = Some (Inr s')"
  shows "direction s' = newDirection s \<and> newDirection s' = newDirection s \<and>
         poseHistory s' = poseHistory s \<and> neutralChinPosition s' = neutralChinPosition s \<and>
         lastVideoTime s' = lastVideoTime s"
  using assms
  by (auto simp: update_def Let_def endGame_snake_def
      split: list.splits if_splits option.splits)

lemma resetGame_snake_fields:
  assumes "resetGame_snake c draws s = Some s'"
  shows "neutralChinPosition s' = None \<and> poseHistory s' = poseHistory s \<and>
         gameRunning s' = gameRunning s \<and> lastVideoTime s' = lastVideoTime s \<and>
         direction s' = Right \<and> newDirection s' = Right \<and> score s' = 0 \<and>
         snake s' = [(15, 15)]"
  using assms by (auto simp: resetGame_snake_def Let_def split: option.splits)

lemma startGame_snake_fields:
  assumes "startGame_snake c draws s = Some s'"
  shows "(gameRunning s \<and> s' = s) \<or>
         (\<not> gameRunning s \<and> gameRunning s' \<and> neutralChinPosition s' = None \<and>
          poseHistory s' = poseHistory s \<and> lastVideoTime s' = lastVideoTime s \<and>
          direction s' = Right \<and> newDirection s' = Right)"
proof (cases "gameRunning s")
  case True
  with assms show ?thesis by (simp add: startGame_snake_def)
next
  case False
  with assms have "resetGame_snake c draws (s\<lparr>gameRunning := True\<rparr>) = Some s'"
    by (simp add: startGame_snake_def)
  from resetGame_snake_fields [OF this] False show ?thesis by simp
qed

text \<open>A click while the game runs changes nothing.\<close>

lemma startGame_snake_running: "gameRunning s \<Longrightarrow> startGame_snake c draws s = Some s"
  by (simp add: startGame_snake_def)

subsection \<open>The pending heading is never the reverse of the committed one\<close>

lemma opposite_neq: "opposite d \<noteq> d"
  by (cases d) simp_all

lemma step_snake_pending:
  assumes "step_snake c e s = Some (Inr s')"
    and "newDirection s \<noteq> opposite (direction s)"
  shows "newDirection s' \<noteq> opposite (direction s')"
proof (cases e)
  case (Frame videoTime results now)
  with assms(1) have "predictWebcam_snake videoTime results now s = Inr s'" by simp
  from predictWebcam_snake_heading [OF this] assms(2) show ?thesis by auto
next
  case (Tick draws)
  show ?thesis
  proof (cases "gameRunning s")
    case True
    with Tick assms(1) have "update c draws s = Some (Inr s')" by simp
    from update_fields [OF this] show ?thesis by (simp add: opposite_neq [symmetric])
  next
    case False
    with Tick assms show ?thesis by simp
  qed
next
  case (Click draws)
  with assms(1) have "startGame_snake c draws s = Some s'" by auto
  from startGame_snake_fields [OF this] assms(2) show ?thesis by auto
qed

lemma run_snake_pending:
  assumes "run_snake c evs s = Some (Inr s')"
    and "newDirection s \<noteq> opposite (direction s)"
  shows "newDirection s' \<noteq> opposite (direction s')"
  using assms
proof (induction evs arbitrary: s)
  case Nil
  then show ?case by simp
next
  case (Cons e evs)
  from Cons.prems(1) obtain s1 where s1: "step_snake c e s = Some (Inr s1)"
    and rest: "run_snake c evs s1 = Some (Inr s')"
    by (auto split: option.splits sum.splits)
  have "newDirection s1 \<noteq> opposite (direction s1)"
    using step_snake_pending [OF s1 Cons.prems(2)] .
  with Cons.IH [OF rest] show ?case .
qed

lemma reachable_pending:
  assumes "run_snake c evs initial_snake = Some (Inr s)"
  shows "newDirection s \<noteq> opposite (direction s)"
  using run_snake_pending [OF assms] by (simp add: initial_snake_def)

subsection \<open>The history along a run of the snake game\<close>

text \<open>
  As long as the clock readings of the frames never go down, the history of every
  state that the page reaches is in ascending order.
\<close>

lemma ascending_mono: "ascending t h \<Longrightarrow> t \<le> t' \<Longrightarrow> ascending t' h"
  by (auto simp: ascending_def list_all_iff)

lemma predictWebcam_snake_ascending:
  assumes "predictWebcam_snake videoTime results now s = Inr s'"
    and "ascending t (poseHistory s)" and "t \<le> now"
  shows "ascending now (poseHistory s')"
proof -
  have a: "ascending now (poseHistory s)"
    using assms(2,3) by (rule ascending_mono)
  from predictWebcam_snake_cases [of videoTime results now s] assms(1) a
    ascending_step [OF a, of SMOOTHING_DURATION_snake]
  show ?thesis by (auto simp: pushAndPrune_fields calibrate_fields)
qed

lemma run_snake_ascending:
  assumes "run_snake c evs s = Some (Inr s')"
    and "ascending t (poseHistory s)" and "sorted (t # readings evs)"
  shows "ascending (last (t # readings evs)) (poseHistory s')"
  using assms
proof (induction evs arbitrary: s t)
  case Nil
  then show ?case by simp
next
  case (Cons e evs)
  from Cons.prems(1) obtain s1 where s1: "step_snake c e s = Some (Inr s1)"
    and rest: "run_snake c evs s1 = Some (Inr s')"
    by (auto split: option.splits sum.splits)
  show ?case
  proof (cases e)
    case (Frame videoTime results now)
    with s1 have "predictWebcam_snake videoTime results now s = Inr s1" by simp
    moreover have "t \<le> now" using Cons.prems(3) Frame by simp
    ultimately have "ascending now (poseHistory s1)"
      using Cons.prems(2) predictWebcam_snake_ascending by blast
    moreover have "sorted (now # readings evs)" using Cons.prems(3) Frame by simp
    ultimately have "ascending (last (now # readings evs)) (poseHistory s')"
      using Cons.IH [OF rest] by blast
    with Frame show ?thesis by simp
  next
    case (Tick draws)
    have "poseHistory s1 = poseHistory s"
    proof (cases "gameRunning s")
      case True
      with Tick s1 have "update c draws s = Some (Inr s1)" by simp
      from update_fields [OF this] show ?thesis by simp
    next
      case False
      with Tick s1 show ?thesis by simp
    qed
    with Cons.prems(2) have "ascending t (poseHistory s1)" by simp
    moreover have "sorted (t # readings evs)" using Cons.prems(3) Tick by simp
    ultimately have "ascending (last (t # readings evs)) (poseHistory s')"
      using Cons.IH [OF rest] by blast
    with Tick show ?thesis by simp
  next
    case (Click draws)
    with s1 have "startGame_snake c draws s = Some s1" by auto
    from startGame_snake_fields [OF this] have "poseHistory s1 = poseHistory s" by auto
    with Cons.prems(2) have "ascending t (poseHistory s1)" by simp
    moreover have "sorted (t # readings evs)" using Cons.prems(3) Click by simp
    ultimately have "ascending (last (t # readings evs)) (poseHistory s')"
      using Cons.IH [OF rest] by blast
    with Click show ?thesis by simp
  qed
qed

lemma reachable_ascending:
  assumes "run_snake c evs initial_snake = Some (Inr s)" and "sorted (readings evs)"
    and "list_all (\<lambda>t. t \<le> now) (readings evs)"
  shows "ascending now (poseHistory s)"
proof (cases "readings evs")
  case Nil
  have "ascending now (poseHistory initial_snake)"
    by (simp add: ascending_def initial_snake_def)
  moreover have "sorted (now # readings evs)" using Nil by simp
  ultimately have "ascending (last (now # readings evs)) (poseHistory s)"
    using run_snake_ascending [OF assms(1)] by blast
  with Nil show ?thesis by simp
next
  case (Cons t ts)
  have "ascending t (poseHistory initial_snake)"
    by (simp add: ascending_def initial_snake_def)
  moreover have "sorted (t # readings evs)" using Cons assms(2) by simp
  ultimately have "ascending (last (t # readings evs)) (poseHistory s)"
    using run_snake_ascending [OF assms(1)] by blast
  moreover have "last (t # readings evs) \<le> now"
    using assms(3) Cons by (simp add: list_all_iff)
  ultimately show ?thesis by (rule ascending_mono)
qed

subsection \<open>The start of the snake game returns\<close>

lemma placeFood_returns:
  "list_ex (\<lambda>r. \<not> onSnake sn (cellOf c r)) draws \<Longrightarrow>
     \<exists>f. placeFood c sn draws = Some f \<and> \<not> onSnake sn f"
proof (induction draws)
  case Nil
  then show ?case by simp
next
  case (Cons r draws)
  show ?case
  proof (cases "onSnake sn (cellOf c r)")
    case True
    with Cons show ?thesis by simp
  next
    case False
    then show ?thesis by simp
  qed
qed

lemma startGame_snake_returns:
  assumes "\<not> gameRunning s" and "list_ex (\<lambda>r. \<not> onSnake [(15, 15)] (cellOf c r)) draws"
  shows "\<exists>s'. startGame_snake c draws s = Some s'"
proof -
  obtain f where "placeFood c [(15, 15)] draws = Some f"
    using placeFood_returns [OF assms(2)] by blast
  then show ?thesis
    using assms(1) by (simp add: startGame_snake_def resetGame_snake_def Let_def)
qed

subsection \<open>The paddle game while no game runs\<close>

lemma targetPaddleX_idle: "\<not> gameRunning b \<Longrightarrow> targetPaddleX c a b = Inr (directControl c a)"
  by (simp add: targetPaddleX_def)

lemma processLandmarks_breakout_idle:
  assumes "chinOf landmarks = Some chin" and "\<not> gameRunning b"
  shows "processLandmarks_breakout c now landmarks b =
     Inr ((pushAndPrune SMOOTHING_DURATION_breakout now chin b)
       \<lparr>paddleX := clampPaddle c (ease (paddleX b)
          (directControl c (avgX (shiftOld (now - SMOOTHING_DURATION_breakout)
             (poseHistory b @ [newPose now chin])))))\<rparr>)"
proof -
  define b2 where "b2 = pushAndPrune SMOOTHING_DURATION_breakout now chin b"
  have cal: "calibrate chin b = b"
    using assms(2) by (simp add: calibrate_def)
  have h2: "poseHistory b2 = shiftOld (now - SMOOTHING_DURATION_breakout)
             (poseHistory b @ [newPose now chin])"
    by (simp add: b2_def pushAndPrune_fields)
  have "poseHistory b2 \<noteq> []"
    unfolding h2 using shiftOld_keeps_last [of "newPose now chin"
        "now - SMOOTHING_DURATION_breakout" "poseHistory b"]
    by (simp add: timestamp_newPose SMOOTHING_DURATION_breakout_def)
  moreover have "\<not> gameRunning b2"
    using assms(2) by (simp add: b2_def pushAndPrune_fields)
  moreover have "paddleX b2 = paddleX b"
    by (simp add: b2_def breakout_fields)
  ultimately show ?thesis
    using assms(1) cal h2
    by (simp add: processLandmarks_breakout_def b2_def [symmetric] Let_def targetPaddleX_idle)
qed

subsection \<open>Deviations inside the dead zone\<close>

lemma dead_zone_numbers:
  "fdiv (fadd 0 (lit (52 / 100))) 1 = lit (52 / 100)"
  "fdiv (fadd 0 (1 / 2)) 1 = 1 / 2"
  "fsub (1 / 2) (1 / 2) = 0"
  "0 < fsub (lit (52 / 100)) (1 / 2)"
  "fsub (lit (52 / 100)) (1 / 2) < lit (3 / 100)"
  "0 < lit (3 / 100)"
  "0 < lit (1 / 100)"
  by code_simp+

lemma resolveDirection_dead_zone:
  assumes "poseHistory s \<noteq> []" and "neutralChinPosition s = Some n"
    and "\<not> lit (3 / 100) < fsub (avgX (poseHistory s)) (fst n)"
    and "\<not> fsub (avgX (poseHistory s)) (fst n) < - lit (3 / 100)"
    and "\<not> fsub (avgY (poseHistory s)) (snd n) < - lit (1 / 100)"
    and "\<not> lit (1 / 100) < fsub (avgY (poseHistory s)) (snd n)"
  shows "resolveDirection s = Inr s"
  using assms by (simp add: resolveDirection_def Let_def)

section \<open>Claim C1: the recency window\<close>

text \<open>
  Claim C1, as stated, for every sequence of appended samples: it fails when the clock
  steps back between two frames. \<^verbatim>\<open>Date.now()\<close> is the wall clock, and the loop stops at
  the first sample that is recent enough, so that an older sample behind it stays. Three
  frames read at 1000, 400 and 1200 leave the sample of 400 in a history whose window
  (500 ms in the snake game) starts at 700.
\<close>

theorem clock_stepping_back_counterexample:
  "run_snake page
     [Frame 1 (Some [faceAt (1 / 2) (1 / 2)]) 1000,
      Frame 2 (Some [faceAt (1 / 2) (1 / 2)]) 400,
      Frame 3 (Some [faceAt (1 / 2) (1 / 2)]) 1200] initial_snake =
   Some (Inr (initial_snake
     \<lparr>lastVideoTime := 3,
      poseHistory := [newPose 1000 (1 / 2, 1 / 2), newPose 400 (1 / 2, 1 / 2),
                      newPose 1200 (1 / 2, 1 / 2)]\<rparr>)) \<and>
   timestamp (newPose 400 (1 / 2, 1 / 2)) < 1200 - SMOOTHING_DURATION_snake"
  by (simp add: predictWebcam_snake_def processLandmarks_snake_def chinOf_faceAt
      resolveDirection_def calibrate_def pushAndPrune_def initial_snake_def newPose_def
      SMOOTHING_DURATION_snake_def Let_def)

text \<open>
  Claim C1, amended: in both games, if the history is in ascending order of its
  timestamps and none of them is later than the clock reading \<open>now\<close> (the clock has not
  stepped back), then after the append and the eviction of \<^verbatim>\<open>processLandmarks\<close> every
  retained sample has a timestamp of at least \<open>now - SMOOTHING_DURATION\<close>, and the
  history is again in ascending order and not later than \<open>now\<close>. The hypothesis is an
  invariant: by \<open>reachable_ascending\<close> it holds in every state that the snake game
  reaches while the clock readings of its frames never go down.
\<close>

theorem window_of_ascending_history:
  assumes "chinOf landmarks = Some chin"
    and "ascending now (poseHistory s)" and "ascending now (poseHistory b)"
  shows "(\<exists>s'. processLandmarks_snake now landmarks s = Inr s' \<and>
            (\<forall>p\<in>set (poseHistory s'). now - SMOOTHING_DURATION_snake \<le> timestamp p) \<and>
            ascending now (poseHistory s')) \<and>
         (\<exists>b'. processLandmarks_breakout c now landmarks b = Inr b' \<and>
            (\<forall>p\<in>set (poseHistory b'). now - SMOOTHING_DURATION_breakout \<le> timestamp p) \<and>
            ascending now (poseHistory b'))"
proof -
  obtain d where "processLandmarks_snake now landmarks s =
      Inr ((pushAndPrune SMOOTHING_DURATION_snake now chin (calibrate chin s))\<lparr>newDirection := d\<rparr>)"
    using processLandmarks_snake_shape [OF assms(1)] by blast
  moreover obtain t where "processLandmarks_breakout c now landmarks b =
      Inr ((pushAndPrune SMOOTHING_DURATION_breakout now chin (calibrate chin b))\<lparr>paddleX := t\<rparr>)"
    using processLandmarks_breakout_shape [OF assms(1)] by blast
  ultimately show ?thesis
    using ascending_step [OF assms(2)] ascending_step [OF assms(3)]
      ascending_window [OF assms(2)] ascending_window [OF assms(3)]
    by (simp add: pushAndPrune_fields calibrate_fields)
qed

theorem window_of_ascending_history_witness:
  "chinOf (faceAt (1 / 2) (1 / 2)) = Some (1 / 2, 1 / 2) \<and>
   ascending 1500 [newPose 900 (1 / 4, 1 / 2), newPose 1300 (1 / 4, 1 / 2)] \<and>
   (\<exists>s'. processLandmarks_snake 1500 (faceAt (1 / 2) (1 / 2))
        (initial_snake\<lparr>poseHistory :=
           [newPose 900 (1 / 4, 1 / 2), newPose 1300 (1 / 4, 1 / 2)]\<rparr>) = Inr s' \<and>
      (\<forall>p\<in>set (poseHistory s'). 1500 - SMOOTHING_DURATION_snake \<le> timestamp p) \<and>
      ascending 1500 (poseHistory s')) \<and>
   (\<exists>b'. processLandmarks_breakout page 1500 (faceAt (1 / 2) (1 / 2))
        ((initial_breakout page)\<lparr>poseHistory :=
           [newPose 900 (1 / 4, 1 / 2), newPose 1300 (1 / 4, 1 / 2)]\<rparr>) = Inr b' \<and>
      (\<forall>p\<in>set (poseHistory b'). 1500 - SMOOTHING_DURATION_breakout \<le> timestamp p) \<and>
      ascending 1500 (poseHistory b'))"
proof -
  have a: "ascending 1500 [newPose 900 (1 / 4, 1 / 2), newPose 1300 (1 / 4, 1 / 2)]"
    by (simp add: ascending_def newPose_def)
  show ?thesis
    using a window_of_ascending_history [OF chinOf_faceAt, of 1500
        "initial_snake\<lparr>poseHistory :=
           [newPose 900 (1 / 4, 1 / 2), newPose 1300 (1 / 4, 1 / 2)]\<rparr>"
        "(initial_breakout page)\<lparr>poseHistory :=
           [newPose 900 (1 / 4, 1 / 2), newPose 1300 (1 / 4, 1 / 2)]\<rparr>"
        "1 / 2" "1 / 2" page]
    by (simp add: chinOf_faceAt)
qed

section \<open>Claim C2: the heading of the snake\<close>

text \<open>
  Claim C2. In the snake game, in every state \<open>s\<close> that the page reaches from its
  initial state by frames, ticks and clicks, and for every detector result: a frame
  leaves the committed heading as it is and never leaves its reverse as the pending
  heading, whatever the deviation of the head, and the tick that follows commits the
  pending heading, which is therefore not the reverse of the heading committed before.
\<close>

theorem reverse_never_committed:
  assumes "run_snake c evs initial_snake = Some (Inr s)"
    and "predictWebcam_snake videoTime results now s = Inr s'"
    and "update c draws s' = Some (Inr s'')"
  shows "direction s' = direction s \<and>
         newDirection s' \<noteq> opposite (direction s) \<and>
         direction s'' = newDirection s' \<and>
         direction s'' \<noteq> opposite (direction s)"
proof -
  have inv: "newDirection s \<noteq> opposite (direction s)"
    using reachable_pending [OF assms(1)] .
  from predictWebcam_snake_heading [OF assms(2)] inv
  have "direction s' = direction s" and "newDirection s' \<noteq> opposite (direction s)"
    by auto
  with update_fields [OF assms(3)] show ?thesis by simp
qed

theorem reverse_never_committed_witness:
  "run_snake page [Click [(0, 0)], Frame 1 (Some [faceAt (1 / 2) (1 / 2)]) 1000] initial_snake =
     Some (Inr calibrated_snake) \<and>
   predictWebcam_snake 2 (Some [faceAt (7 / 8) (1 / 2)]) 1100 calibrated_snake =
     Inr (calibrated_snake\<lparr>lastVideoTime := 2,
            poseHistory := [newPose 1000 (1 / 2, 1 / 2), newPose 1100 (7 / 8, 1 / 2)]\<rparr>) \<and>
   lit (3 / 100) <
     fsub (avgX [newPose 1000 (1 / 2, 1 / 2), newPose 1100 (7 / 8, 1 / 2)]) (1 / 2) \<and>
   update page []
     (calibrated_snake\<lparr>lastVideoTime := 2,
        poseHistory := [newPose 1000 (1 / 2, 1 / 2), newPose 1100 (7 / 8, 1 / 2)]\<rparr>) =
     Some (Inr (calibrated_snake\<lparr>lastVideoTime := 2,
        poseHistory := [newPose 1000 (1 / 2, 1 / 2), newPose 1100 (7 / 8, 1 / 2)],
        snake := [(16, 15)]\<rparr>)) \<and>
   direction calibrated_snake = Right \<and>
   newDirection (calibrated_snake\<lparr>lastVideoTime := 2,
        poseHistory := [newPose 1000 (1 / 2, 1 / 2), newPose 1100 (7 / 8, 1 / 2)]\<rparr>)
     \<noteq> opposite (direction calibrated_snake) \<and>
   direction (calibrated_snake\<lparr>lastVideoTime := 2,
        poseHistory := [newPose 1000 (1 / 2, 1 / 2), newPose 1100 (7 / 8, 1 / 2)],
        snake := [(16, 15)]\<rparr>) \<noteq> opposite (direction calibrated_snake)"
proof -
  have reach: "run_snake page [Click [(0, 0)], Frame 1 (Some [faceAt (1 / 2) (1 / 2)]) 1000]
      initial_snake = Some (Inr calibrated_snake)"
    by code_simp
  have frame: "predictWebcam_snake 2 (Some [faceAt (7 / 8) (1 / 2)]) 1100 calibrated_snake =
     Inr (calibrated_snake\<lparr>lastVideoTime := 2,
            poseHistory := [newPose 1000 (1 / 2, 1 / 2), newPose 1100 (7 / 8, 1 / 2)]\<rparr>)"
    by code_simp
  have strong: "lit (3 / 100) <
     fsub (avgX [newPose 1000 (1 / 2, 1 / 2), newPose 1100 (7 / 8, 1 / 2)]) (1 / 2)"
    by code_simp
  have tick: "update page []
     (calibrated_snake\<lparr>lastVideoTime := 2,
        poseHistory := [newPose 1000 (1 / 2, 1 / 2), newPose 1100 (7 / 8, 1 / 2)]\<rparr>) =
     Some (Inr (calibrated_snake\<lparr>lastVideoTime := 2,
        poseHistory := [newPose 1000 (1 / 2, 1 / 2), newPose 1100 (7 / 8, 1 / 2)],
        snake := [(16, 15)]\<rparr>))"
    by code_simp
  have right: "direction calibrated_snake = Right"
    by (simp add: calibrated_snake_def initial_snake_def)
  from reverse_never_committed [OF reach frame tick] reach frame strong tick right
  show ?thesis by simp
qed

section \<open>Claim C3: calibration\<close>

text \<open>
  Claim C3. Neutral calibration is a one-shot latch: for every frame that carries a chin
  landmark, in both games, \<^verbatim>\<open>processLandmarks\<close> returns normally and leaves in
  \<^verbatim>\<open>neutralChinPosition\<close> the chin's \<open>(x, y)\<close> if the game is running and no neutral
  position was set, and the previous value in every other case (a neutral position
  already set, or the game not running).
\<close>

theorem neutral_latch:
  assumes "chinOf landmarks = Some chin"
  shows "(\<exists>s'. processLandmarks_snake now landmarks s = Inr s' \<and>
            neutralChinPosition s' =
              (if gameRunning s \<and> neutralChinPosition s = None then Some chin
               else neutralChinPosition s)) \<and>
         (\<exists>b'. processLandmarks_breakout c now landmarks b = Inr b' \<and>
            neutralChinPosition b' =
              (if gameRunning b \<and> neutralChinPosition b = None then Some chin
               else neutralChinPosition b))"
proof -
  obtain d where "processLandmarks_snake now landmarks s =
      Inr ((pushAndPrune SMOOTHING_DURATION_snake now chin (calibrate chin s))\<lparr>newDirection := d\<rparr>)"
    using processLandmarks_snake_shape [OF assms] by blast
  moreover obtain t where "processLandmarks_breakout c now landmarks b =
      Inr ((pushAndPrune SMOOTHING_DURATION_breakout now chin (calibrate chin b))\<lparr>paddleX := t\<rparr>)"
    using processLandmarks_breakout_shape [OF assms] by blast
  ultimately show ?thesis
    by (simp add: pushAndPrune_fields calibrate_fields)
qed

theorem neutral_latch_witness:
  "chinOf (faceAt (1 / 2) (1 / 4)) = Some (1 / 2, 1 / 4) \<and>
   (\<exists>s'. processLandmarks_snake 1000 (faceAt (1 / 2) (1 / 4))
            (initial_snake\<lparr>gameRunning := True\<rparr>) = Inr s' \<and>
          neutralChinPosition s' = Some (1 / 2, 1 / 4)) \<and>
   (\<exists>b'. processLandmarks_breakout page 1000 (faceAt (1 / 2) (1 / 4))
            (initial_breakout page) = Inr b' \<and>
          neutralChinPosition b' = None)"
  using neutral_latch [OF chinOf_faceAt, of 1000 "1 / 2" "1 / 4"
      "initial_snake\<lparr>gameRunning := True\<rparr>" page "initial_breakout page"]
  by (simp add: chinOf_faceAt initial_snake_def initial_breakout_def)

section \<open>Claim C4: the start of a session\<close>

text \<open>
  Claim C4, as stated: it fails for the history. No statement of either file empties
  \<^verbatim>\<open>poseHistory\<close>: \<^verbatim>\<open>resetGame\<close> assigns \<^verbatim>\<open>neutralChinPosition = null\<close> and leaves the
  history alone. A sample recorded while the page was idle is still there after the
  click that starts the snake game, and after \<^verbatim>\<open>resetGame\<close> of the paddle game.
\<close>

theorem history_survives_start_counterexample:
  "run_snake page [Frame 1 (Some [faceAt (1 / 2) (1 / 2)]) 1000, Click [(0, 0)]] initial_snake =
     Some (Inr (initial_snake\<lparr>lastVideoTime := 1, gameRunning := True,
       poseHistory := [newPose 1000 (1 / 2, 1 / 2)], food := Some (0, 0)\<rparr>)) \<and>
   poseHistory (resetGame_breakout page
       ((initial_breakout page)\<lparr>poseHistory := [newPose 1000 (1 / 2, 1 / 2)]\<rparr>)) =
     [newPose 1000 (1 / 2, 1 / 2)]"
proof -
  have "run_snake page [Frame 1 (Some [faceAt (1 / 2) (1 / 2)]) 1000, Click [(0, 0)]]
      initial_snake =
     Some (Inr (initial_snake\<lparr>lastVideoTime := 1, gameRunning := True,
       poseHistory := [newPose 1000 (1 / 2, 1 / 2)], food := Some (0, 0)\<rparr>))"
    by code_simp
  then show ?thesis by (simp add: resetGame_breakout_def)
qed

text \<open>
  Claim C4, amended: when a session starts, the neutral position becomes absent and the
  history is left as it is (its samples leave it only through the eviction of a later
  frame). In the snake game the start is a click while no game runs, which returns as
  soon as one draw of \<^verbatim>\<open>placeFood\<close> misses the snake, and sets the flag; in the paddle
  game it is \<^verbatim>\<open>resetGame\<close>, which every start and restart calls.
\<close>

theorem start_clears_neutral_keeps_history:
  assumes "\<not> gameRunning s" and "list_ex (\<lambda>r. \<not> onSnake [(15, 15)] (cellOf c r)) draws"
  shows "(\<exists>s'. startGame_snake c draws s = Some s' \<and> gameRunning s' \<and>
            neutralChinPosition s' = None \<and> poseHistory s' = poseHistory s) \<and>
         neutralChinPosition (resetGame_breakout c b) = None \<and>
         poseHistory (resetGame_breakout c b) = poseHistory b"
proof -
  obtain s' where s': "startGame_snake c draws s = Some s'"
    using startGame_snake_returns [OF assms] by blast
  from startGame_snake_fields [OF s'] assms(1) s' show ?thesis
    by (auto simp: resetGame_breakout_def)
qed

theorem start_clears_neutral_keeps_history_witness:
  "\<not> gameRunning (endGame_snake calibrated_snake) \<and>
   list_ex (\<lambda>r. \<not> onSnake [(15, 15)] (cellOf page r)) [(1 / 2, 1 / 2)] \<and>
   (\<exists>s'. startGame_snake page [(1 / 2, 1 / 2)] (endGame_snake calibrated_snake) = Some s' \<and>
      gameRunning s' \<and> neutralChinPosition s' = None \<and>
      poseHistory s' = poseHistory (endGame_snake calibrated_snake)) \<and>
   neutralChinPosition (resetGame_breakout page running_breakout) = None \<and>
   poseHistory (resetGame_breakout page running_breakout) = poseHistory running_breakout"
proof -
  have idle: "\<not> gameRunning (endGame_snake calibrated_snake)"
    by (simp add: endGame_snake_def)
  have free: "list_ex (\<lambda>r. \<not> onSnake [(15, 15)] (cellOf page r)) [(1 / 2, 1 / 2)]"
    by code_simp
  from start_clears_neutral_keeps_history [OF idle free, of running_breakout] idle free
  show ?thesis by simp
qed

section \<open>Claim C5: the target of the paddle\<close>

text \<open>
  Claim C5. In the paddle game, while the game runs, the ball comes down
  (\<open>0 < ballDY\<close>), a neutral position exists and the ball moves to the right
  (\<open>0 < ballDX\<close>, so that the required direction is right): the target is the ball's
  \<open>x\<close> minus half the paddle width if the deviation of the average from the neutral
  position is classified as right, and the direct-control value
  \<open>(1 - avgX) * canvasWidth - paddleWidth / 2\<close> in the other two cases of the
  classification (left, none).
\<close>

theorem aim_assist_target:
  assumes "gameRunning b" and "0 < ballDY b" and "neutralChinPosition b = Some neutral"
    and "0 < ballDX b"
  shows "targetPaddleX c a b =
           Inr (if classify (fsub a (fst neutral)) = UserRight
                then fsub (ballX b) (fdiv paddleWidth 2)
                else fsub (fmul (fsub 1 a) (of_nat (width c))) (fdiv paddleWidth 2))"
  using assms by (simp add: targetPaddleX_def directControl_def Let_def)

theorem aim_assist_target_witness:
  "gameRunning running_breakout \<and> 0 < ballDY running_breakout \<and>
   neutralChinPosition running_breakout = Some (1 / 2, 1 / 2) \<and>
   0 < ballDX running_breakout \<and>
   classify (fsub (1 / 4) (1 / 2)) = UserRight \<and>
   targetPaddleX page (1 / 4) running_breakout = Inr 240 \<and>
   classify (fsub (3 / 4) (1 / 2)) = UserLeft \<and>
   targetPaddleX page (3 / 4) running_breakout = Inr 70 \<and>
   classify (fsub (1 / 2) (1 / 2)) = UserNone \<and>
   targetPaddleX page (1 / 2) running_breakout = Inr 200"
proof -
  have facts: "gameRunning running_breakout" "0 < ballDY running_breakout"
    "neutralChinPosition running_breakout = Some (1 / 2, 1 / 2)" "0 < ballDX running_breakout"
    "ballX running_breakout = 300"
    by (simp_all add: running_breakout_def initial_breakout_def)
  have r: "classify (fsub (1 / 4) (1 / 2)) = UserRight" by code_simp
  have l: "classify (fsub (3 / 4) (1 / 2)) = UserLeft" by code_simp
  have n: "classify (fsub (1 / 2) (1 / 2)) = UserNone" by code_simp
  have v: "fsub 300 (fdiv paddleWidth 2) = 240"
    "fsub (fmul (fsub 1 (3 / 4)) (of_nat (width page))) (fdiv paddleWidth 2) = 70"
    "fsub (fmul (fsub 1 (1 / 2)) (of_nat (width page))) (fdiv paddleWidth 2) = 200"
    by code_simp+
  from aim_assist_target [OF facts(1-4), of page "1 / 4"]
    aim_assist_target [OF facts(1-4), of page "3 / 4"]
    aim_assist_target [OF facts(1-4), of page "1 / 2"] facts r l n v
  show ?thesis by simp
qed

section \<open>Claim C6: frames while no session runs\<close>

text \<open>
  Claim C6, as stated: it fails. The prediction loop runs from the moment the page has
  loaded, and \<^verbatim>\<open>processLandmarks\<close> reads \<^verbatim>\<open>gameRunning\<close> only to decide the calibration
  (and, in the paddle game, the aim assist). After \<^verbatim>\<open>endGame\<close> a detector result is
  processed like any other: in the snake game the sample is appended and the pending
  heading goes from right to up, and in the paddle game the sample is appended and the
  paddle moves from 100 to 146.
\<close>

theorem idle_frames_are_processed_counterexample:
  "\<not> gameRunning (endGame_snake calibrated_snake) \<and>
   predictWebcam_snake 2 (Some [faceAt (1 / 2) (1 / 4)]) 1100 (endGame_snake calibrated_snake) =
     Inr ((endGame_snake calibrated_snake)\<lparr>lastVideoTime := 2,
        poseHistory := [newPose 1000 (1 / 2, 1 / 2), newPose 1100 (1 / 2, 1 / 4)],
        newDirection := Up\<rparr>) \<and>
   newDirection (endGame_snake calibrated_snake) = Right \<and>
   \<not> gameRunning (endGame_breakout running_breakout) \<and>
   predictWebcam_breakout page 2 (Some [faceAt (1 / 4) (1 / 2)]) 1100
       (endGame_breakout running_breakout) =
     Inr ((endGame_breakout running_breakout)\<lparr>lastVideoTime := 2,
        poseHistory := [newPose 1100 (1 / 4, 1 / 2)], paddleX := 146\<rparr>) \<and>
   paddleX (endGame_breakout running_breakout) = 100"
  by code_simp

text \<open>
  Claim C6, amended: while no session runs, a new frame with a chin landmark returns
  normally and changes neither the flag nor the neutral position, nor the committed
  heading of the snake; its sample is appended to the history, from which the old
  samples are evicted, and the paddle is eased toward the direct-control target of the
  new average, never toward the ball.
\<close>

theorem idle_frames_are_processed:
  assumes "\<not> gameRunning s" and "\<not> gameRunning b"
    and "chinOf face = Some chin"
    and "videoTime \<noteq> lastVideoTime s" and "videoTime \<noteq> lastVideoTime b"
  shows "(\<exists>s'. predictWebcam_snake videoTime (Some (face # rest)) now s = Inr s' \<and>
            \<not> gameRunning s' \<and> neutralChinPosition s' = neutralChinPosition s \<and>
            direction s' = direction s \<and>
            poseHistory s' =
              shiftOld (now - SMOOTHING_DURATION_snake) (poseHistory s @ [newPose now chin])) \<and>
         (\<exists>b'. predictWebcam_breakout c videoTime (Some (face # rest)) now b = Inr b' \<and>
            \<not> gameRunning b' \<and> neutralChinPosition b' = neutralChinPosition b \<and>
            poseHistory b' =
              shiftOld (now - SMOOTHING_DURATION_breakout) (poseHistory b @ [newPose now chin]) \<and>
            paddleX b' =
              clampPaddle c (ease (paddleX b) (directControl c (avgX (poseHistory b')))))"
proof -
  obtain d where "processLandmarks_snake now face (s\<lparr>lastVideoTime := videoTime\<rparr>) =
      Inr ((pushAndPrune SMOOTHING_DURATION_snake now chin
              (calibrate chin (s\<lparr>lastVideoTime := videoTime\<rparr>)))\<lparr>newDirection := d\<rparr>)"
    using processLandmarks_snake_shape [OF assms(3)] by blast
  then have snake_part: "\<exists>s'. predictWebcam_snake videoTime (Some (face # rest)) now s = Inr s' \<and>
            \<not> gameRunning s' \<and> neutralChinPosition s' = neutralChinPosition s \<and>
            direction s' = direction s \<and>
            poseHistory s' =
              shiftOld (now - SMOOTHING_DURATION_snake) (poseHistory s @ [newPose now chin])"
    using assms(1,4)
    by (simp add: predictWebcam_snake_def pushAndPrune_fields calibrate_fields snake_fields)
  have "\<not> gameRunning (b\<lparr>lastVideoTime := videoTime\<rparr>)"
    using assms(2) by simp
  from processLandmarks_breakout_idle [OF assms(3) this, of c now]
  have "\<exists>b'. predictWebcam_breakout c videoTime (Some (face # rest)) now b = Inr b' \<and>
            \<not> gameRunning b' \<and> neutralChinPosition b' = neutralChinPosition b \<and>
            poseHistory b' =
              shiftOld (now - SMOOTHING_DURATION_breakout) (poseHistory b @ [newPose now chin]) \<and>
            paddleX b' =
              clampPaddle c (ease (paddleX b) (directControl c (avgX (poseHistory b'))))"
    using assms(2,5)
    by (simp add: predictWebcam_breakout_def pushAndPrune_fields)
  with snake_part show ?thesis by blast
qed

theorem idle_frames_are_processed_witness:
  "\<not> gameRunning (endGame_snake calibrated_snake) \<and>
   \<not> gameRunning (endGame_breakout running_breakout) \<and>
   chinOf (faceAt (1 / 2) (1 / 4)) = Some (1 / 2, 1 / 4) \<and>
   2 \<noteq> lastVideoTime (endGame_snake calibrated_snake) \<and>
   2 \<noteq> lastVideoTime (endGame_breakout running_breakout) \<and>
   (\<exists>s'. predictWebcam_snake 2 (Some [faceAt (1 / 2) (1 / 4)]) 1100
        (endGame_snake calibrated_snake) = Inr s' \<and>
      \<not> gameRunning s' \<and>
      neutralChinPosition s' = neutralChinPosition (endGame_snake calibrated_snake) \<and>
      direction s' = direction (endGame_snake calibrated_snake) \<and>
      poseHistory s' = shiftOld (1100 - SMOOTHING_DURATION_snake)
        (poseHistory (endGame_snake calibrated_snake) @ [newPose 1100 (1 / 2, 1 / 4)])) \<and>
   (\<exists>b'. predictWebcam_breakout page 2 (Some [faceAt (1 / 2) (1 / 4)]) 1100
        (endGame_breakout running_breakout) = Inr b' \<and>
      \<not> gameRunning b' \<and>
      neutralChinPosition b' = neutralChinPosition (endGame_breakout running_breakout) \<and>
      poseHistory b' = shiftOld (1100 - SMOOTHING_DURATION_breakout)
        (poseHistory (endGame_breakout running_breakout) @ [newPose 1100 (1 / 2, 1 / 4)]) \<and>
      paddleX b' = clampPaddle page (ease (paddleX (endGame_breakout running_breakout))
        (directControl page (avgX (poseHistory b')))))"
proof -
  have a: "\<not> gameRunning (endGame_snake calibrated_snake)"
    by (simp add: endGame_snake_def)
  have b: "\<not> gameRunning (endGame_breakout running_breakout)"
    by (simp add: endGame_breakout_def)
  have v: "2 \<noteq> lastVideoTime (endGame_snake calibrated_snake)"
    by (simp add: endGame_snake_def calibrated_snake_def)
  have w: "2 \<noteq> lastVideoTime (endGame_breakout running_breakout)"
    by (simp add: endGame_breakout_def running_breakout_def initial_breakout_def)
  from idle_frames_are_processed
      [OF a b chinOf_faceAt v w, where rest = "[]" and now = 1100 and c = page] a b v w
  show ?thesis by (simp add: chinOf_faceAt)
qed

section \<open>Claim C7: the dead zone of the snake\<close>

text \<open>
  Claim C7. In the snake game, with the neutral position \<open>(0.5, 0.5)\<close> and a window
  that holds the single sample \<open>(t, 0.52, 0.5)\<close> (every older sample is evicted, and
  \<^verbatim>\<open>0.52\<close> is the binary64 value of that literal), the horizontal deviation is above 0
  and below the threshold \<^verbatim>\<open>0.03\<close>, the vertical deviation is 0, and the frame changes
  neither the pending nor the committed heading.
\<close>

theorem dead_zone_honoured:
  assumes "neutralChinPosition s = Some (1 / 2, 1 / 2)"
    and "list_all (\<lambda>p. timestamp p < t - SMOOTHING_DURATION_snake) (poseHistory s)"
    and "chinOf landmarks = Some (lit (52 / 100), 1 / 2)"
  shows "\<exists>s'. processLandmarks_snake t landmarks s = Inr s' \<and>
           poseHistory s' = [newPose t (lit (52 / 100), 1 / 2)] \<and>
           0 < fsub (avgX (poseHistory s')) (1 / 2) \<and>
           fsub (avgX (poseHistory s')) (1 / 2) < lit (3 / 100) \<and>
           fsub (avgY (poseHistory s')) (1 / 2) = 0 \<and>
           newDirection s' = newDirection s \<and> direction s' = direction s"
proof -
  define s2 where "s2 = pushAndPrune SMOOTHING_DURATION_snake t (lit (52 / 100), 1 / 2) s"
  have cal: "calibrate (lit (52 / 100), 1 / 2) s = s"
    using assms(1) by (simp add: calibrate_def)
  have h2: "poseHistory s2 = [newPose t (lit (52 / 100), 1 / 2)]"
    using assms(2)
      shiftOld_all_old [of "poseHistory s" "t - SMOOTHING_DURATION_snake"
        "newPose t (lit (52 / 100), 1 / 2)"]
    by (simp add: s2_def pushAndPrune_fields list_all_iff timestamp_newPose
        SMOOTHING_DURATION_snake_def)
  have n2: "neutralChinPosition s2 = Some (1 / 2, 1 / 2)"
    using assms(1) by (simp add: s2_def pushAndPrune_fields)
  have ax: "avgX (poseHistory s2) = lit (52 / 100)"
    using dead_zone_numbers(1) by (simp add: h2 avgX_def newPose_def)
  have ay: "avgY (poseHistory s2) = 1 / 2"
    using dead_zone_numbers(2) by (simp add: h2 avgY_def newPose_def)
  have c1: "\<not> lit (3 / 100) < fsub (avgX (poseHistory s2)) (fst (1 / 2 :: rat, 1 / 2 :: rat))"
    using dead_zone_numbers(5) by (simp add: ax)
  have c2: "\<not> fsub (avgX (poseHistory s2)) (fst (1 / 2 :: rat, 1 / 2 :: rat)) < - lit (3 / 100)"
    using dead_zone_numbers(4,6) by (simp add: ax)
  have c3: "\<not> fsub (avgY (poseHistory s2)) (snd (1 / 2 :: rat, 1 / 2 :: rat)) < - lit (1 / 100)"
    using dead_zone_numbers(3,7) by (simp add: ay)
  have c4: "\<not> lit (1 / 100) < fsub (avgY (poseHistory s2)) (snd (1 / 2 :: rat, 1 / 2 :: rat))"
    using dead_zone_numbers(3,7) by (simp add: ay)
  have "poseHistory s2 \<noteq> []"
    by (simp add: h2)
  then have "resolveDirection s2 = Inr s2"
    using n2 c1 c2 c3 c4 by (rule resolveDirection_dead_zone)
  then have "processLandmarks_snake t landmarks s = Inr s2"
    using assms(3) cal by (simp add: processLandmarks_snake_def s2_def)
  moreover have "newDirection s2 = newDirection s" "direction s2 = direction s"
    by (simp_all add: s2_def snake_fields)
  moreover have "0 < fsub (avgX (poseHistory s2)) (1 / 2)"
    "fsub (avgX (poseHistory s2)) (1 / 2) < lit (3 / 100)"
    "fsub (avgY (poseHistory s2)) (1 / 2) = 0"
    using dead_zone_numbers(3-5) by (simp_all add: ax ay)
  ultimately show ?thesis
    using h2 by simp
qed

theorem dead_zone_honoured_witness:
  "neutralChinPosition calibrated_snake = Some (1 / 2, 1 / 2) \<and>
   list_all (\<lambda>p. timestamp p < 2000 - SMOOTHING_DURATION_snake) (poseHistory calibrated_snake) \<and>
   chinOf (faceAt (lit (52 / 100)) (1 / 2)) = Some (lit (52 / 100), 1 / 2) \<and>
   (\<exists>s'. processLandmarks_snake 2000 (faceAt (lit (52 / 100)) (1 / 2)) calibrated_snake = Inr s' \<and>
      poseHistory s' = [newPose 2000 (lit (52 / 100), 1 / 2)] \<and>
      0 < fsub (avgX (poseHistory s')) (1 / 2) \<and>
      fsub (avgX (poseHistory s')) (1 / 2) < lit (3 / 100) \<and>
      fsub (avgY (poseHistory s')) (1 / 2) = 0 \<and>
      newDirection s' = newDirection calibrated_snake \<and>
      direction s' = direction calibrated_snake)"
proof -
  have n: "neutralChinPosition calibrated_snake = Some (1 / 2, 1 / 2)"
    by (simp add: calibrated_snake_def)
  have old: "list_all (\<lambda>p. timestamp p < 2000 - SMOOTHING_DURATION_snake)
      (poseHistory calibrated_snake)"
    by (simp add: calibrated_snake_def newPose_def SMOOTHING_DURATION_snake_def)
  from dead_zone_honoured [OF n old chinOf_faceAt] n old
  show ?thesis by (simp add: chinOf_faceAt)
qed

section \<open>Claim C8: the easing of the paddle\<close>

text \<open>
  Claim C8. The update \<^verbatim>\<open>paddleX += (targetPaddleX - paddleX) * 0.2\<close>, in the rounded
  arithmetic of the program, takes the position 100 with the target 200 to exactly 120,
  and from there to exactly 136.
\<close>

theorem easing_two_ticks: "ease 100 200 = 120 \<and> ease (ease 100 200) 200 = 136"
  by code_simp

text \<open>
  The same two steps inside \<^verbatim>\<open>processLandmarks\<close>: on a canvas 520 wide, with the chin
  at \<open>x = 1/2\<close> and no game running, the target is 200, and two frames take the paddle
  from 100 to 120 and to 136.
\<close>

lemma easing_numbers:
  "clampPaddle page (ease 100 (directControl page (avgX [newPose 1000 (1 / 2, 1 / 2)]))) = 120"
  "clampPaddle page (ease 120 (directControl page
     (avgX [newPose 1000 (1 / 2, 1 / 2), newPose 1016 (1 / 2, 1 / 2)]))) = 136"
  by code_simp+

lemma easing_in_the_game:
  "processLandmarks_breakout page 1000 (faceAt (1 / 2) (1 / 2))
     ((initial_breakout page)\<lparr>paddleX := 100\<rparr>) =
   Inr ((initial_breakout page)\<lparr>paddleX := 120,
          poseHistory := [newPose 1000 (1 / 2, 1 / 2)]\<rparr>) \<and>
   processLandmarks_breakout page 1016 (faceAt (1 / 2) (1 / 2))
     ((initial_breakout page)\<lparr>paddleX := 120,
          poseHistory := [newPose 1000 (1 / 2, 1 / 2)]\<rparr>) =
   Inr ((initial_breakout page)\<lparr>paddleX := 136,
          poseHistory := [newPose 1000 (1 / 2, 1 / 2), newPose 1016 (1 / 2, 1 / 2)]\<rparr>)"
proof -
  have idle: "\<not> gameRunning ((initial_breakout page)\<lparr>paddleX := 100\<rparr>)"
    "\<not> gameRunning ((initial_breakout page)\<lparr>paddleX := 120,
          poseHistory := [newPose 1000 (1 / 2, 1 / 2)]\<rparr>)"
    by (simp_all add: initial_breakout_def)
  have h: "poseHistory (initial_breakout page) = []"
    by (simp add: initial_breakout_def)
  show ?thesis
    by (simp add: processLandmarks_breakout_idle [OF chinOf_faceAt idle(1)]
        processLandmarks_breakout_idle [OF chinOf_faceAt idle(2)]
        pushAndPrune_def h timestamp_newPose SMOOTHING_DURATION_breakout_def easing_numbers)
qed

section \<open>Claim C9: before the neutral position exists\<close>

text \<open>
  Claim C9. With no neutral position, the resolver of neither game throws: the target
  of the paddle is the direct-control value \<open>(1 - avgX) * canvasWidth - paddleWidth / 2\<close>,
  and the resolver of the snake returns the state unchanged. \<^verbatim>\<open>processLandmarks\<close> as a
  whole returns normally in both games; in the snake game it leaves the committed
  heading as it is, and also the pending heading when no game runs (when a game runs,
  the frame calibrates first, and the resolver then has a neutral position).
\<close>

theorem no_neutral_no_exception:
  assumes "neutralChinPosition b = None" and "neutralChinPosition s = None"
  shows "targetPaddleX c a b = Inr (fsub (fmul (fsub 1 a) (of_nat (width c))) (fdiv paddleWidth 2)) \<and>
         resolveDirection s = Inr s \<and>
         (\<exists>b'. processLandmarks_breakout c now landmarks b = Inr b') \<and>
         (\<exists>s'. processLandmarks_snake now landmarks s = Inr s' \<and>
            direction s' = direction s \<and>
            (\<not> gameRunning s \<longrightarrow> newDirection s' = newDirection s))"
proof -
  have t: "targetPaddleX c a b = Inr (fsub (fmul (fsub 1 a) (of_nat (width c))) (fdiv paddleWidth 2))"
    using assms(1) by (simp add: targetPaddleX_def directControl_def)
  have r: "resolveDirection s = Inr s"
    using assms(2) by (simp add: resolveDirection_def)
  have pb: "\<exists>b'. processLandmarks_breakout c now landmarks b = Inr b'"
  proof (cases "chinOf landmarks")
    case None
    then show ?thesis by (simp add: processLandmarks_breakout_def)
  next
    case (Some chin)
    from processLandmarks_breakout_shape [OF this] show ?thesis by blast
  qed
  have ps: "\<exists>s'. processLandmarks_snake now landmarks s = Inr s' \<and>
            direction s' = direction s \<and>
            (\<not> gameRunning s \<longrightarrow> newDirection s' = newDirection s)"
  proof (cases "chinOf landmarks")
    case None
    then show ?thesis by (simp add: processLandmarks_snake_def)
  next
    case (Some chin)
    show ?thesis
    proof (cases "gameRunning s")
      case True
      obtain d where "processLandmarks_snake now landmarks s =
          Inr ((pushAndPrune SMOOTHING_DURATION_snake now chin (calibrate chin s))
                 \<lparr>newDirection := d\<rparr>)"
        using processLandmarks_snake_shape [OF Some] by blast
      with True show ?thesis by (simp add: snake_fields)
    next
      case False
      then have "calibrate chin s = s" by (simp add: calibrate_def)
      moreover have "resolveDirection (pushAndPrune SMOOTHING_DURATION_snake now chin s) =
          Inr (pushAndPrune SMOOTHING_DURATION_snake now chin s)"
        using assms(2) by (simp add: resolveDirection_def pushAndPrune_fields)
      ultimately show ?thesis
        using Some by (simp add: processLandmarks_snake_def snake_fields)
    qed
  qed
  from t r pb ps show ?thesis by blast
qed

theorem no_neutral_no_exception_witness:
  "neutralChinPosition (initial_breakout page) = None \<and>
   neutralChinPosition (initial_snake\<lparr>poseHistory := [newPose 1000 (7 / 8, 1 / 2)]\<rparr>) = None \<and>
   targetPaddleX page (1 / 4) (initial_breakout page) = Inr 330 \<and>
   resolveDirection (initial_snake\<lparr>poseHistory := [newPose 1000 (7 / 8, 1 / 2)]\<rparr>) =
     Inr (initial_snake\<lparr>poseHistory := [newPose 1000 (7 / 8, 1 / 2)]\<rparr>) \<and>
   (\<exists>b'. processLandmarks_breakout page 1100 (faceAt (7 / 8) (1 / 2))
      (initial_breakout page) = Inr b') \<and>
   (\<exists>s'. processLandmarks_snake 1100 (faceAt (7 / 8) (1 / 2))
        (initial_snake\<lparr>poseHistory := [newPose 1000 (7 / 8, 1 / 2)]\<rparr>) = Inr s' \<and>
      direction s' = Right \<and> newDirection s' = Right)"
proof -
  have nb: "neutralChinPosition (initial_breakout page) = None"
    by (simp add: initial_breakout_def)
  have ns: "neutralChinPosition (initial_snake\<lparr>poseHistory := [newPose 1000 (7 / 8, 1 / 2)]\<rparr>) = None"
    by (simp add: initial_snake_def)
  have v: "fsub (fmul (fsub 1 (1 / 4)) (of_nat (width page))) (fdiv paddleWidth 2) = 330"
    by code_simp
  from no_neutral_no_exception [OF nb ns, of page "1 / 4" 1100 "faceAt (7 / 8) (1 / 2)"] nb ns v
  show ?thesis by (simp add: initial_snake_def)
qed

section \<open>Claim C10: the sample just appended\<close>

text \<open>
  Claim C10. In both games the history that \<^verbatim>\<open>processLandmarks\<close> leaves is never empty
  and ends with the sample just appended: the loop evicts timestamps below
  \<open>now - SMOOTHING_DURATION\<close> only, and the new sample carries \<open>now\<close>. So the return on
  an empty history is never taken: the paddle game always reaches the easing of
  \<^verbatim>\<open>paddleX\<close> toward the target computed from the new history.
\<close>

theorem appended_sample_survives:
  assumes "chinOf landmarks = Some chin"
  shows "(\<exists>s'. processLandmarks_snake now landmarks s = Inr s' \<and>
            poseHistory s' \<noteq> [] \<and> last (poseHistory s') = newPose now chin) \<and>
         (\<exists>b' target. processLandmarks_breakout c now landmarks b = Inr b' \<and>
            poseHistory b' \<noteq> [] \<and> last (poseHistory b') = newPose now chin \<and>
            targetPaddleX c (avgX (poseHistory b')) b' = Inr target \<and>
            paddleX b' = clampPaddle c (ease (paddleX b) target))"
proof -
  have keep: "\<And>w h. 0 < w \<Longrightarrow>
      shiftOld (now - w) (h @ [newPose now chin]) \<noteq> [] \<and>
      last (shiftOld (now - w) (h @ [newPose now chin])) = newPose now chin"
    by (rule shiftOld_keeps_last) (simp add: timestamp_newPose)
  obtain d where d: "processLandmarks_snake now landmarks s =
      Inr ((pushAndPrune SMOOTHING_DURATION_snake now chin (calibrate chin s))\<lparr>newDirection := d\<rparr>)"
    using processLandmarks_snake_shape [OF assms] by blast
  have snake_part: "\<exists>s'. processLandmarks_snake now landmarks s = Inr s' \<and>
            poseHistory s' \<noteq> [] \<and> last (poseHistory s') = newPose now chin"
    using d keep [of SMOOTHING_DURATION_snake "poseHistory s"]
    by (simp add: pushAndPrune_fields calibrate_fields SMOOTHING_DURATION_snake_def)
  define b2 where "b2 = pushAndPrune SMOOTHING_DURATION_breakout now chin (calibrate chin b)"
  have h2: "poseHistory b2 \<noteq> [] \<and> last (poseHistory b2) = newPose now chin"
    using keep [of SMOOTHING_DURATION_breakout "poseHistory b"]
    by (simp add: b2_def pushAndPrune_fields calibrate_fields SMOOTHING_DURATION_breakout_def)
  obtain t where t: "targetPaddleX c (avgX (poseHistory b2)) b2 = Inr t"
    using targetPaddleX_returns by blast
  have "processLandmarks_breakout c now landmarks b =
      Inr (b2\<lparr>paddleX := clampPaddle c (ease (paddleX b2) t)\<rparr>)"
    using assms t h2 by (simp add: processLandmarks_breakout_def b2_def [symmetric] Let_def)
  moreover have "paddleX b2 = paddleX b"
    by (simp add: b2_def breakout_fields)
  ultimately have "\<exists>b' target. processLandmarks_breakout c now landmarks b = Inr b' \<and>
            poseHistory b' \<noteq> [] \<and> last (poseHistory b') = newPose now chin \<and>
            targetPaddleX c (avgX (poseHistory b')) b' = Inr target \<and>
            paddleX b' = clampPaddle c (ease (paddleX b) target)"
    using h2 t by (simp add: targetPaddleX_paddleX)
  with snake_part show ?thesis by blast
qed

theorem appended_sample_survives_witness:
  "chinOf (faceAt (1 / 2) (1 / 4)) = Some (1 / 2, 1 / 4) \<and>
   (\<exists>s'. processLandmarks_snake 1000 (faceAt (1 / 2) (1 / 4)) initial_snake = Inr s' \<and>
      poseHistory s' \<noteq> [] \<and> last (poseHistory s') = newPose 1000 (1 / 2, 1 / 4)) \<and>
   (\<exists>b' target. processLandmarks_breakout page 1000 (faceAt (1 / 2) (1 / 4))
        (initial_breakout page) = Inr b' \<and>
      poseHistory b' \<noteq> [] \<and> last (poseHistory b') = newPose 1000 (1 / 2, 1 / 4) \<and>
      targetPaddleX page (avgX (poseHistory b')) b' = Inr target \<and>
      paddleX b' = clampPaddle page (ease (paddleX (initial_breakout page)) target))"
  using appended_sample_survives [OF chinOf_faceAt, of 1000 "1 / 2" "1 / 4"
      initial_snake page "initial_breakout page"]
  by (simp add: chinOf_faceAt)

end
